theory Spec2Isabelle
  imports Main "HOL-Library.Word"
begin

unbundle bit_operations_syntax

section \<open>TinyProbe: the main loop of the logic probe (software/TinyProbe.ino)\<close>

text \<open>
  The firmware is one endless loop over a handful of 8-bit and 16-bit variables and two
  port registers. The model keeps them in one record, with the names of the source, and
  turns every block of the loop body into a function on that record. What the hardware
  delivers during a pass (two ADC results, two reads of \<open>PINB\<close>, and whether the pin
  change interrupt fired while it was enabled) is the input of the pass.

  The model follows the interrupt-driven sketch, in which \<open>OSC_DUR\<close> is 50 and the
  oscillation counter overrides the floating flag.
\<close>

type_synonym u8 = "8 word"
type_synonym u16 = "16 word"

subsection \<open>Constants\<close>

definition TTL_LOW :: u16 where "TTL_LOW = 164"
definition TTL_HIGH :: u16 where "TTL_HIGH = 409"
definition CMOS_LOW :: u16 where "CMOS_LOW = 307"
definition CMOS_HIGH :: u16 where "CMOS_HIGH = 716"
definition OSC_DUR :: u8 where "OSC_DUR = 50"

subsection \<open>Variables and inputs\<close>

text \<open>
  \<open>DDRB\<close> and \<open>PORTB\<close> are the port registers the loop writes, \<open>isOscillating\<close> is the
  volatile global, the rest are the locals of \<open>main\<close>, which live across iterations.
\<close>

record probe =
  DDRB :: u8
  PORTB :: u8
  isOscillating :: u8
  valSwitch :: u16
  valProbe :: u16
  valHigh :: u16
  valLow :: u16
  isHigh :: u8
  isLow :: u8
  lastHigh :: u8
  lastLow :: u8
  isFloating :: u8

text \<open>
  One pass of the loop reads: the ADC on channel 0 (the level switch), the pin change
  interrupt during the one millisecond in which \<open>PCMSK\<close> enables it, \<open>PINB\<close> with the
  probe line pulled up, \<open>PINB\<close> with the probe line pulled down, and the ADC on channel 3
  (the probe).
\<close>

record inputs =
  adcSwitch :: u16
  edge :: bool
  pinUp :: u8
  pinDown :: u8
  adcProbe :: u16

subsection \<open>Start-up\<close>

text \<open>
  The global \<open>isOscillating\<close> starts at zero (static storage), the set-up code writes
  \<open>DDRB\<close> and \<open>PORTB\<close>. The locals are not initialised: they keep whatever the argument
  holds.
\<close>

definition startup :: "probe \<Rightarrow> probe" where
  "startup u = u\<lparr>DDRB := 0b00000111, PORTB := 0b00000000, isOscillating := 0\<rparr>"

subsection \<open>The blocks of the loop body\<close>

text \<open>Level selection switch: TTL thresholds unless the reading is below 768.\<close>

definition check_switch :: "u16 \<Rightarrow> probe \<Rightarrow> probe" where
  "check_switch adc m =
     (let m = m\<lparr>valLow := TTL_LOW\<rparr>;
          m = m\<lparr>valHigh := TTL_HIGH\<rparr>;
          m = m\<lparr>valSwitch := adc\<rparr>
      in if valSwitch m < 768
         then m\<lparr>valLow := CMOS_LOW, valHigh := CMOS_HIGH\<rparr>
         else m)"

text \<open>The pin change interrupt service routine.\<close>

definition PCINT0_vect :: "probe \<Rightarrow> probe" where
  "PCINT0_vect m = m\<lparr>isOscillating := OSC_DUR\<rparr>"

text \<open>
  High frequency oscillation: the pull pin becomes an output driving high, then the pin
  change interrupt is enabled for a millisecond. The service routine runs if an edge
  arrived in that window (running it again would assign the same constant again).
\<close>

definition check_hf_oscillation :: "bool \<Rightarrow> probe \<Rightarrow> probe" where
  "check_hf_oscillation e m =
     (let m = m\<lparr>DDRB := DDRB m OR 0b00010000\<rparr>;
          m = m\<lparr>PORTB := PORTB m OR 0b00010000\<rparr>
      in if e then PCINT0_vect m else m)"

text \<open>Floating check: the two reads of \<open>PINB\<close>, pulled up and pulled down.\<close>

definition check_floating :: "u8 \<Rightarrow> u8 \<Rightarrow> probe \<Rightarrow> probe" where
  "check_floating up down m =
     (let m = m\<lparr>isFloating := up\<rparr>;
          m = m\<lparr>PORTB := PORTB m AND 0b11101111\<rparr>;
          m = m\<lparr>isFloating := isFloating m AND NOT down\<rparr>;
          m = m\<lparr>isFloating := isFloating m AND 0b00001000\<rparr>
      in m\<lparr>DDRB := DDRB m AND 0b11101111\<rparr>)"

text \<open>Probe voltage against the thresholds; a C comparison yields 1 or 0.\<close>

definition read_probe :: "u16 \<Rightarrow> probe \<Rightarrow> probe" where
  "read_probe adc m =
     (let m = m\<lparr>valProbe := adc\<rparr>;
          m = m\<lparr>isHigh := of_bool (valProbe m > valHigh m)\<rparr>
      in m\<lparr>isLow := of_bool (valProbe m < valLow m)\<rparr>)"

text \<open>Low frequency oscillation, and the override of the floating flag.\<close>

definition check_lf_oscillation :: "probe \<Rightarrow> probe" where
  "check_lf_oscillation m =
     (let m = (if isFloating m = 0 \<and>
                  ((isHigh m \<noteq> 0 \<and> lastLow m \<noteq> 0) \<or> (isLow m \<noteq> 0 \<and> lastHigh m \<noteq> 0))
               then m\<lparr>isOscillating := OSC_DUR\<rparr> else m);
          m = m\<lparr>lastHigh := isHigh m, lastLow := isLow m\<rparr>
      in if isOscillating m \<noteq> 0 then m\<lparr>isFloating := 0\<rparr> else m)"

text \<open>
  The LEDs. \<open>set_level\<close> is the pair of statements for the LO and the HI LED,
  \<open>set_os\<close> the body of the branch for the OS LED.
\<close>

definition set_level :: "probe \<Rightarrow> probe" where
  "set_level m =
     (let m = (if isLow m \<noteq> 0 then m\<lparr>PORTB := PORTB m OR 0b00000010\<rparr> else m)
      in if isHigh m \<noteq> 0 then m\<lparr>PORTB := PORTB m OR 0b00000101\<rparr> else m)"

definition set_os :: "probe \<Rightarrow> probe" where
  "set_os m =
     (let m = m\<lparr>PORTB := PORTB m AND 0b11111011\<rparr>;
          m = m\<lparr>PORTB := PORTB m OR 0b00000001\<rparr>
      in m\<lparr>isOscillating := isOscillating m - 1\<rparr>)"

definition set_leds :: "probe \<Rightarrow> probe" where
  "set_leds m =
     (let m = m\<lparr>PORTB := PORTB m AND 0b11111000\<rparr>
      in if isFloating m \<noteq> 0 then m\<lparr>PORTB := PORTB m OR 0b00000100\<rparr>
         else
           (let m = set_level m
            in if isOscillating m \<noteq> 0 then set_os m else m))"

subsection \<open>One pass, and a run\<close>

text \<open>\<open>sample\<close> is the pass up to the classification of the probe voltage.\<close>

definition sample :: "inputs \<Rightarrow> probe \<Rightarrow> probe" where
  "sample i m =
     read_probe (adcProbe i)
       (check_floating (pinUp i) (pinDown i)
         (check_hf_oscillation (edge i)
           (check_switch (adcSwitch i) m)))"

text \<open>\<open>before_leds\<close> is the state in which the LEDs are set.\<close>

definition before_leds :: "inputs \<Rightarrow> probe \<Rightarrow> probe" where
  "before_leds i m = check_lf_oscillation (sample i m)"

definition loop_body :: "inputs \<Rightarrow> probe \<Rightarrow> probe" where
  "loop_body i m = set_leds (before_leds i m)"

fun run :: "probe \<Rightarrow> inputs list \<Rightarrow> probe" where
  "run m [] = m"
| "run m (i # js) = run (loop_body i m) js"

subsection \<open>Reading the LED pins\<close>

text \<open>
  The three LED pins are bits 0 to 2 of \<open>PORTB\<close>. The loop writes \<open>0b100\<close> for the FL LED,
  \<open>0b010\<close> for the LO LED, \<open>0b101\<close> for the HI LED, and for the OS LED it clears bit 2 and
  sets bit 0. The wiring of the LEDs is not part of the sketch, so an indicator counts as
  asserted when the port carries the pattern the loop writes for it: bit 1 for LO, and
  bits 2 and 0 together for FL (\<open>10\<close>), HI (\<open>11\<close>) and OS (\<open>01\<close>).
\<close>

definition leds :: "probe \<Rightarrow> u8" where
  "leds m = PORTB m AND 0b00000111"

definition FL_pattern :: "probe \<Rightarrow> bool" where
  "FL_pattern m = (PORTB m AND 0b00000101 = 0b00000100)"

definition HI_pattern :: "probe \<Rightarrow> bool" where
  "HI_pattern m = (PORTB m AND 0b00000101 = 0b00000101)"

definition OS_pattern :: "probe \<Rightarrow> bool" where
  "OS_pattern m = (PORTB m AND 0b00000101 = 0b00000001)"

definition LO_pattern :: "probe \<Rightarrow> bool" where
  "LO_pattern m = (PORTB m AND 0b00000010 = 0b00000010)"

subsection \<open>Passes that do not set the counter\<close>

text \<open>
  A pass sets the counter anew if the interrupt fires or if the low frequency check
  finds a change of level. A run is quiet if none of its passes does.
\<close>

definition retrigger :: "inputs \<Rightarrow> probe \<Rightarrow> bool" where
  "retrigger i m =
     (edge i \<or>
      (isFloating (sample i m) = 0 \<and>
        ((isHigh (sample i m) \<noteq> 0 \<and> lastLow (sample i m) \<noteq> 0)
         \<or> (isLow (sample i m) \<noteq> 0 \<and> lastHigh (sample i m) \<noteq> 0))))"

fun quiet :: "probe \<Rightarrow> inputs list \<Rightarrow> bool" where
  "quiet m [] = True"
| "quiet m (i # js) = (\<not> retrigger i m \<and> quiet (loop_body i m) js)"

subsection \<open>Example states and inputs\<close>

text \<open>Locals that happen to hold zero, and the state after start-up from them.\<close>

definition uninitialised :: probe where
  "uninitialised = \<lparr>DDRB = 0, PORTB = 0, isOscillating = 0,
     valSwitch = 0, valProbe = 0, valHigh = 0, valLow = 0,
     isHigh = 0, isLow = 0, lastHigh = 0, lastLow = 0, isFloating = 0\<rparr>"

definition power_on :: probe where
  "power_on = startup uninitialised"

text \<open>States in front of the LED block.\<close>

definition floating_example :: probe where
  "floating_example = \<lparr>DDRB = 0b00000111, PORTB = 0b00000101, isOscillating = 7,
     valSwitch = 900, valProbe = 500, valHigh = 409, valLow = 164,
     isHigh = 1, isLow = 0, lastHigh = 1, lastLow = 0, isFloating = 0b00001000\<rparr>"

definition high_oscillating_example :: probe where
  "high_oscillating_example = \<lparr>DDRB = 0b00000111, PORTB = 0b00000000, isOscillating = 50,
     valSwitch = 900, valProbe = 500, valHigh = 409, valLow = 164,
     isHigh = 1, isLow = 0, lastHigh = 1, lastLow = 0, isFloating = 0\<rparr>"

definition low_oscillating_example :: probe where
  "low_oscillating_example = \<lparr>DDRB = 0b00000111, PORTB = 0b00000000, isOscillating = 50,
     valSwitch = 900, valProbe = 100, valHigh = 409, valLow = 164,
     isHigh = 0, isLow = 1, lastHigh = 1, lastLow = 0, isFloating = 0\<rparr>"

text \<open>
  Inputs of a pass, switch on TTL: a line driven low, a line driven high, a line driven
  high with an edge in the window, and an open line that follows the pull resistor,
  with an edge in the window.
\<close>

definition ttl_low_in :: inputs where
  "ttl_low_in = \<lparr>adcSwitch = 900, edge = False, pinUp = 0, pinDown = 0, adcProbe = 100\<rparr>"

definition ttl_high_in :: inputs where
  "ttl_high_in = \<lparr>adcSwitch = 900, edge = False, pinUp = 0b00001000, pinDown = 0b00001000,
     adcProbe = 500\<rparr>"

definition edge_in :: inputs where
  "edge_in = \<lparr>adcSwitch = 900, edge = True, pinUp = 0b00001000, pinDown = 0b00001000,
     adcProbe = 500\<rparr>"

definition open_edge_in :: inputs where
  "open_edge_in = \<lparr>adcSwitch = 900, edge = True, pinUp = 0b00001000, pinDown = 0,
     adcProbe = 300\<rparr>"

section \<open>Properties\<close>

lemmas block_defs = check_switch_def PCINT0_vect_def check_hf_oscillation_def
  check_floating_def read_probe_def check_lf_oscillation_def set_level_def set_os_def
  set_leds_def
lemmas const_defs = TTL_LOW_def TTL_HIGH_def CMOS_LOW_def CMOS_HIGH_def OSC_DUR_def
lemmas all_defs = loop_body_def before_leds_def sample_def block_defs const_defs Let_def
lemmas start_defs = power_on_def uninitialised_def startup_def

subsection \<open>What each block does to the variables\<close>

lemma word_pred_unat: "c \<noteq> 0 \<Longrightarrow> unat (c - 1) = unat c - 1" for c :: u8
  by (simp add: unat_minus_one)

lemma word_pred_le: "c \<le> b \<Longrightarrow> c \<noteq> 0 \<Longrightarrow> c - 1 \<le> b" for b c :: u8
  by (simp add: word_le_nat_alt word_pred_unat)

lemma PORTB_set_os: "PORTB (set_os q) = (PORTB q AND 0b11111011) OR 0b00000001"
  by (simp add: set_os_def Let_def)

lemma isOscillating_set_os: "isOscillating (set_os q) = isOscillating q - 1"
  by (simp add: set_os_def Let_def)

lemma PORTB_set_level:
  "PORTB (set_level q) = PORTB q OR (if isLow q \<noteq> 0 then 0b00000010 else 0)
      OR (if isHigh q \<noteq> 0 then 0b00000101 else 0)"
  by (simp add: set_level_def Let_def or.assoc)

lemma set_level_keeps [simp]:
  "isOscillating (set_level q) = isOscillating q"
  "isFloating (set_level q) = isFloating q"
  "isLow (set_level q) = isLow q"
  "isHigh (set_level q) = isHigh q"
  by (simp_all add: set_level_def Let_def)

lemma PORTB_set_leds_floating:
  "isFloating m \<noteq> 0 \<Longrightarrow> PORTB (set_leds m) = (PORTB m AND 0b11111000) OR 0b00000100"
  by (simp add: set_leds_def Let_def)

lemma isOscillating_set_leds_floating:
  "isFloating m \<noteq> 0 \<Longrightarrow> isOscillating (set_leds m) = isOscillating m"
  by (simp add: set_leds_def Let_def)

lemma set_leds_oscillating:
  "isFloating m = 0 \<Longrightarrow> isOscillating m \<noteq> 0 \<Longrightarrow>
     set_leds m = set_os (set_level (m\<lparr>PORTB := PORTB m AND 0b11111000\<rparr>))"
  by (simp add: set_leds_def Let_def)

lemma set_leds_steady:
  "isFloating m = 0 \<Longrightarrow> isOscillating m = 0 \<Longrightarrow>
     set_leds m = set_level (m\<lparr>PORTB := PORTB m AND 0b11111000\<rparr>)"
  by (simp add: set_leds_def Let_def)

lemma leds_set_leds_oscillating:
  "isFloating m = 0 \<Longrightarrow> isOscillating m \<noteq> 0 \<Longrightarrow>
     leds (set_leds m) = (if isLow m \<noteq> 0 then 0b00000011 else 0b00000001)"
  by (simp add: set_leds_oscillating PORTB_set_os PORTB_set_level leds_def
      bit.conj_disj_distrib2 and.assoc)

lemma OS_pattern_set_leds_oscillating:
  "isFloating m = 0 \<Longrightarrow> isOscillating m \<noteq> 0 \<Longrightarrow> OS_pattern (set_leds m)"
  by (simp add: set_leds_oscillating PORTB_set_os OS_pattern_def
      bit.conj_disj_distrib2 and.assoc)

lemma PORTB_set_leds_high_bits:
  "PORTB (set_leds m) AND 0b11111000 = PORTB m AND 0b11111000"
  by (simp add: set_leds_def PORTB_set_os PORTB_set_level Let_def
      bit.conj_disj_distrib2 and.assoc)

lemma isOscillating_set_leds:
  "isOscillating (set_leds m) =
     (if isFloating m = 0 \<and> isOscillating m \<noteq> 0 then isOscillating m - 1
      else isOscillating m)"
  by (simp add: set_leds_def isOscillating_set_os Let_def)

lemma OS_pattern_set_leds:
  "OS_pattern (set_leds m) = (isFloating m = 0 \<and> isOscillating m \<noteq> 0)"
proof (cases "isFloating m = 0")
  case False
  then have "PORTB (set_leds m) = (PORTB m AND 0b11111000) OR 0b00000100"
    by (simp add: PORTB_set_leds_floating)
  with False show ?thesis
    by (simp add: OS_pattern_def bit.conj_disj_distrib2 and.assoc)
next
  case fl: True
  show ?thesis
  proof (cases "isOscillating m = 0")
    case False
    with fl show ?thesis by (simp add: OS_pattern_set_leds_oscillating)
  next
    case True
    with fl show ?thesis
      by (simp add: set_leds_steady PORTB_set_level OS_pattern_def
          bit.conj_disj_distrib2 and.assoc)
  qed
qed

lemma set_leds_keeps [simp]:
  "lastHigh (set_leds m) = lastHigh m"
  "lastLow (set_leds m) = lastLow m"
  by (simp_all add: set_leds_def set_level_def set_os_def Let_def)

lemma sample_keeps [simp]:
  "lastHigh (sample i m) = lastHigh m"
  "lastLow (sample i m) = lastLow m"
  by (simp_all add: sample_def block_defs Let_def)

lemma isOscillating_sample:
  "isOscillating (sample i m) = (if edge i then OSC_DUR else isOscillating m)"
  by (simp add: sample_def block_defs Let_def)

lemma check_lf_oscillation_last [simp]:
  "lastHigh (check_lf_oscillation m) = isHigh m"
  "lastLow (check_lf_oscillation m) = isLow m"
  by (simp_all add: check_lf_oscillation_def Let_def)

lemma isOscillating_check_lf_oscillation:
  "isOscillating (check_lf_oscillation m) =
     (if isFloating m = 0 \<and>
         ((isHigh m \<noteq> 0 \<and> lastLow m \<noteq> 0) \<or> (isLow m \<noteq> 0 \<and> lastHigh m \<noteq> 0))
      then OSC_DUR else isOscillating m)"
  by (auto simp add: check_lf_oscillation_def Let_def)

lemma floating_cleared:
  "isOscillating (check_lf_oscillation m) \<noteq> 0 \<Longrightarrow> isFloating (check_lf_oscillation m) = 0"
  by (simp add: check_lf_oscillation_def Let_def split: if_splits)

subsection \<open>What a pass does to the counter and the LEDs\<close>

lemma last_loop_body:
  "lastHigh (loop_body i m) = isHigh (sample i m)"
  "lastLow (loop_body i m) = isLow (sample i m)"
  by (simp_all add: loop_body_def before_leds_def)

lemma isOscillating_before_leds:
  "isOscillating (before_leds i m) =
     (if edge i \<or> (isFloating (sample i m) = 0 \<and>
         ((isHigh (sample i m) \<noteq> 0 \<and> lastLow m \<noteq> 0)
          \<or> (isLow (sample i m) \<noteq> 0 \<and> lastHigh m \<noteq> 0)))
      then OSC_DUR else isOscillating m)"
  by (auto simp add: before_leds_def isOscillating_check_lf_oscillation isOscillating_sample)

lemma isOscillating_loop_body:
  "isOscillating (loop_body i m) =
     (if isOscillating (before_leds i m) = 0 then 0 else isOscillating (before_leds i m) - 1)"
  using floating_cleared [of "sample i m"]
  by (auto simp add: loop_body_def isOscillating_set_leds before_leds_def)

lemma OS_pattern_loop_body:
  "OS_pattern (loop_body i m) = (isOscillating (before_leds i m) \<noteq> 0)"
  using floating_cleared [of "sample i m"]
  by (auto simp add: loop_body_def OS_pattern_set_leds before_leds_def)

lemma before_leds_bounded:
  "isOscillating m \<le> OSC_DUR \<Longrightarrow> isOscillating (before_leds i m) \<le> OSC_DUR"
  by (simp add: isOscillating_before_leds)

lemma sample_bounded:
  "isOscillating m \<le> OSC_DUR \<Longrightarrow> isOscillating (sample i m) \<le> OSC_DUR"
  by (simp add: isOscillating_sample)

lemma loop_body_bounded:
  "isOscillating m \<le> OSC_DUR \<Longrightarrow> isOscillating (loop_body i m) \<le> OSC_DUR"
  using before_leds_bounded [of m i]
  by (simp add: isOscillating_loop_body word_pred_le)

lemma run_bounded:
  "isOscillating m \<le> OSC_DUR \<Longrightarrow> isOscillating (run m js) \<le> OSC_DUR"
  by (induction js arbitrary: m) (simp_all add: loop_body_bounded)

lemma startup_bounded: "isOscillating (startup u) \<le> OSC_DUR"
  by (simp add: startup_def)

subsection \<open>Quiet runs\<close>

lemma quiet_before_leds:
  "\<not> retrigger i m \<Longrightarrow> isOscillating (before_leds i m) = isOscillating m"
  by (auto simp add: retrigger_def isOscillating_before_leds)

lemma quiet_step:
  "\<not> retrigger i m \<Longrightarrow> unat (isOscillating (loop_body i m)) = unat (isOscillating m) - 1"
  by (simp add: isOscillating_loop_body quiet_before_leds word_pred_unat)

lemma quiet_decay:
  "quiet m js \<Longrightarrow> unat (isOscillating (run m js)) = unat (isOscillating m) - length js"
proof (induction js arbitrary: m)
  case Nil
  then show ?case by simp
next
  case (Cons i js)
  then have "unat (isOscillating (run (loop_body i m) js))
      = unat (isOscillating (loop_body i m)) - length js"
    by simp
  with Cons.prems show ?case by (simp add: quiet_step)
qed

lemma quiet_OS_pattern:
  "quiet m (i # js) \<Longrightarrow>
     OS_pattern (run m (i # js)) = (length (i # js) \<le> unat (isOscillating m))"
proof (induction js arbitrary: m i)
  case Nil
  then have "isOscillating (before_leds i m) = isOscillating m"
    by (simp add: quiet_before_leds)
  then show ?case
    by (simp add: OS_pattern_loop_body unat_gt_0 Suc_le_eq)
next
  case (Cons j js)
  then have q: "\<not> retrigger i m" and r: "quiet (loop_body i m) (j # js)"
    by simp_all
  from r have "OS_pattern (run (loop_body i m) (j # js))
      = (length (j # js) \<le> unat (isOscillating (loop_body i m)))"
    by (rule Cons.IH)
  with q show ?case
    by (auto simp add: quiet_step)
qed

lemma trigger_pass:
  assumes "edge i"
  shows "isOscillating (before_leds i m) = OSC_DUR"
    and "unat (isOscillating (loop_body i m)) = 49"
    and "OS_pattern (loop_body i m)"
proof -
  show b: "isOscillating (before_leds i m) = OSC_DUR"
    using assms by (simp add: isOscillating_before_leds)
  show "unat (isOscillating (loop_body i m)) = 49"
    by (simp add: isOscillating_loop_body b OSC_DUR_def)
  show "OS_pattern (loop_body i m)"
    by (simp add: OS_pattern_loop_body b OSC_DUR_def)
qed

text \<open>A line held high keeps a run quiet once the last classification was not LOW.\<close>

lemma quiet_steady: "lastLow m = 0 \<Longrightarrow> quiet m (replicate n ttl_high_in)"
proof (induction n arbitrary: m)
  case 0
  then show ?case by simp
next
  case (Suc n)
  have l: "lastLow (loop_body ttl_high_in m) = 0"
    by (simp add: last_loop_body sample_def block_defs const_defs Let_def ttl_high_in_def)
  have "\<not> retrigger ttl_high_in m"
    using Suc.prems
    by (simp add: retrigger_def sample_def block_defs const_defs Let_def ttl_high_in_def)
  with Suc.IH [OF l] show ?case by simp
qed

lemma lastLow_after_edge_in: "lastLow (loop_body edge_in power_on) = 0"
  by (simp add: last_loop_body sample_def block_defs const_defs Let_def edge_in_def)

section \<open>The claims\<close>

subsection \<open>Thresholds and classification\<close>

text \<open>
  Claim C3. The thresholds are those of the CMOS profile (307, 716) exactly when the
  reading of the level switch is below 768, and those of the TTL profile (164, 409)
  otherwise. They depend on nothing but that reading: not on the state the block starts
  in, and in a pass not on the state the pass starts in.
\<close>

theorem thresholds_from_switch:
  "(valLow (check_switch v m), valHigh (check_switch v m))
     = (if v < 768 then (CMOS_LOW, CMOS_HIGH) else (TTL_LOW, TTL_HIGH))
   \<and> ((valLow (check_switch v m), valHigh (check_switch v m)) = (307, 716)) = (v < 768)
   \<and> ((valLow (check_switch v m), valHigh (check_switch v m)) = (164, 409)) = (768 \<le> v)
   \<and> (valLow (sample i m), valHigh (sample i m))
     = (if adcSwitch i < 768 then (307, 716) else (164, 409))"
  by (auto simp add: sample_def block_defs const_defs Let_def)

text \<open>
  Claim C2. In every pass, \<open>isHigh\<close> is the comparison of the probe reading with the
  high threshold and \<open>isLow\<close> the comparison with the low threshold, the thresholds are
  those of the TTL profile (164, 409) or of the CMOS profile (307, 716), the low one is
  below the high one, and \<open>isHigh\<close> and \<open>isLow\<close> are never both set.
\<close>

theorem classification_by_thresholds:
  "(isHigh (sample i m) \<noteq> 0) = (adcProbe i > valHigh (sample i m))
   \<and> (isLow (sample i m) \<noteq> 0) = (adcProbe i < valLow (sample i m))
   \<and> isHigh (sample i m) = of_bool (adcProbe i > valHigh (sample i m))
   \<and> isLow (sample i m) = of_bool (adcProbe i < valLow (sample i m))
   \<and> ((valLow (sample i m) = 164 \<and> valHigh (sample i m) = 409)
      \<or> (valLow (sample i m) = 307 \<and> valHigh (sample i m) = 716))
   \<and> valLow (sample i m) < valHigh (sample i m)
   \<and> (isHigh (sample i m) = 0 \<or> isLow (sample i m) = 0)"
proof -
  have ex: "\<not> (hi < r \<and> r < lo)" if "lo < hi" for r lo hi :: u16
    using that by auto
  have ttl: "\<not> (409 < r \<and> r < 164)" for r :: u16 by (rule ex) simp
  have cmos: "\<not> (716 < r \<and> r < 307)" for r :: u16 by (rule ex) simp
  show ?thesis
    using ttl [of "adcProbe i"] cmos [of "adcProbe i"]
    by (auto simp add: sample_def block_defs const_defs Let_def)
qed

subsection \<open>The floating check\<close>

text \<open>
  Claim C8. The floating flag is the probe bit of the first read and of the inverted
  second read. Running the check again on the state the first run left, with the same
  two reads, gives the same flag (and the same state), and so does the check of the next
  pass of the loop.
\<close>

theorem floating_check_idempotent:
  "isFloating (check_floating up down m) = up AND NOT down AND 0b00001000
   \<and> isFloating (check_floating up down (check_floating up down m))
       = isFloating (check_floating up down m)
   \<and> check_floating up down (check_floating up down m) = check_floating up down m
   \<and> isFloating (sample (j\<lparr>pinUp := up, pinDown := down\<rparr>)
                  (loop_body (i\<lparr>pinUp := up, pinDown := down\<rparr>) m))
       = isFloating (sample (i\<lparr>pinUp := up, pinDown := down\<rparr>) m)"
  by (simp add: sample_def block_defs Let_def and.assoc)

subsection \<open>The floating flag and the LEDs\<close>

text \<open>
  Claim C1. Whenever the floating flag is set when the LEDs are written (a pass is
  \<open>set_leds\<close> applied to \<open>before_leds\<close>), the LED pins carry exactly the FL pattern
  \<open>0b100\<close>: FL is asserted, HI, LO and OS are not, the counter is left alone, and the
  port does not depend on \<open>isHigh\<close>, \<open>isLow\<close> or the counter.
\<close>

theorem floating_shows_only_FL:
  assumes "isFloating m \<noteq> 0"
  shows "leds (set_leds m) = 0b00000100
       \<and> FL_pattern (set_leds m)
       \<and> \<not> HI_pattern (set_leds m) \<and> \<not> LO_pattern (set_leds m) \<and> \<not> OS_pattern (set_leds m)
       \<and> isOscillating (set_leds m) = isOscillating m
       \<and> PORTB (set_leds (m\<lparr>isHigh := h, isLow := l, isOscillating := c\<rparr>))
           = PORTB (set_leds m)"
proof -
  have p: "PORTB (set_leds m) = (PORTB m AND 0b11111000) OR 0b00000100"
    using assms by (rule PORTB_set_leds_floating)
  have "leds (set_leds m) = 0b00000100"
    by (simp add: leds_def p bit.conj_disj_distrib2 and.assoc)
  moreover have "FL_pattern (set_leds m)"
    by (simp add: FL_pattern_def p bit.conj_disj_distrib2 and.assoc)
  moreover have "\<not> HI_pattern (set_leds m)"
    by (simp add: HI_pattern_def p bit.conj_disj_distrib2 and.assoc)
  moreover have "\<not> LO_pattern (set_leds m)"
    by (simp add: LO_pattern_def p bit.conj_disj_distrib2 and.assoc)
  moreover have "\<not> OS_pattern (set_leds m)"
    by (simp add: OS_pattern_def p bit.conj_disj_distrib2 and.assoc)
  moreover have "isOscillating (set_leds m) = isOscillating m"
    using assms by (rule isOscillating_set_leds_floating)
  moreover have "PORTB (set_leds (m\<lparr>isHigh := h, isLow := l, isOscillating := c\<rparr>))
      = PORTB (set_leds m)"
    using assms by (simp add: set_leds_def Let_def)
  ultimately show ?thesis by blast
qed

theorem floating_shows_only_FL_witness:
  "isFloating floating_example \<noteq> 0
   \<and> leds (set_leds floating_example) = 0b00000100
   \<and> FL_pattern (set_leds floating_example)
   \<and> \<not> HI_pattern (set_leds floating_example)
   \<and> \<not> LO_pattern (set_leds floating_example)
   \<and> \<not> OS_pattern (set_leds floating_example)
   \<and> isOscillating (set_leds floating_example) = 7"
proof -
  have h: "isFloating floating_example \<noteq> 0" by (simp add: floating_example_def)
  have c: "isOscillating floating_example = 7" by (simp add: floating_example_def)
  show ?thesis using h c floating_shows_only_FL [OF h] by simp
qed

text \<open>
  Claim C4. If the counter is not zero after the low frequency check, the floating flag
  is zero when the LEDs are written, and the pass leaves the OS pattern, not the FL
  pattern, on the LED pins.
\<close>

theorem oscillation_clears_floating:
  assumes "isOscillating (before_leds i m) \<noteq> 0"
  shows "isFloating (before_leds i m) = 0
       \<and> \<not> FL_pattern (loop_body i m)
       \<and> OS_pattern (loop_body i m)"
proof -
  have f: "isFloating (before_leds i m) = 0"
    using assms unfolding before_leds_def by (rule floating_cleared)
  have os: "OS_pattern (loop_body i m)"
    unfolding loop_body_def using f assms by (rule OS_pattern_set_leds_oscillating)
  then have "\<not> FL_pattern (loop_body i m)"
    by (auto simp add: OS_pattern_def FL_pattern_def)
  with f os show ?thesis by simp
qed

text \<open>
  The witness is an open line (the floating check alone sets the flag) with an edge in
  the window.
\<close>

theorem oscillation_clears_floating_witness:
  "isFloating (sample open_edge_in power_on) \<noteq> 0
   \<and> isOscillating (before_leds open_edge_in power_on) \<noteq> 0
   \<and> isFloating (before_leds open_edge_in power_on) = 0
   \<and> \<not> FL_pattern (loop_body open_edge_in power_on)
   \<and> OS_pattern (loop_body open_edge_in power_on)"
proof -
  have a: "isFloating (sample open_edge_in power_on) \<noteq> 0"
    by (simp add: all_defs start_defs open_edge_in_def)
  have b: "isOscillating (before_leds open_edge_in power_on) \<noteq> 0"
    by (simp add: all_defs start_defs open_edge_in_def)
  show ?thesis
    using a b oscillation_clears_floating [OF b] by simp
qed

subsection \<open>The low frequency check\<close>

text \<open>
  Claim C6. Take two passes in a row. If the first classified the line LOW and the
  second classifies it HIGH, or the first HIGH and the second LOW, and the floating
  check of the second pass did not set the flag, then the counter is \<open>OSC_DUR\<close> after
  the low frequency check of the second pass. In any case \<open>lastHigh\<close> and \<open>lastLow\<close>
  hold the classification of the second pass afterwards.
\<close>

theorem level_change_sets_counter:
  "(isFloating (sample j (loop_body i m)) = 0
      \<and> ((isLow (sample i m) \<noteq> 0 \<and> isHigh (sample j (loop_body i m)) \<noteq> 0)
         \<or> (isHigh (sample i m) \<noteq> 0 \<and> isLow (sample j (loop_body i m)) \<noteq> 0))
    \<longrightarrow> isOscillating (before_leds j (loop_body i m)) = OSC_DUR)
   \<and> lastHigh (loop_body j (loop_body i m)) = isHigh (sample j (loop_body i m))
   \<and> lastLow (loop_body j (loop_body i m)) = isLow (sample j (loop_body i m))"
  by (auto simp add: before_leds_def isOscillating_check_lf_oscillation last_loop_body)

theorem level_change_sets_counter_witness:
  "isFloating (sample ttl_high_in (loop_body ttl_low_in power_on)) = 0
   \<and> isLow (sample ttl_low_in power_on) \<noteq> 0
   \<and> isHigh (sample ttl_high_in (loop_body ttl_low_in power_on)) \<noteq> 0
   \<and> isOscillating (before_leds ttl_high_in (loop_body ttl_low_in power_on)) = OSC_DUR
   \<and> lastHigh (loop_body ttl_high_in (loop_body ttl_low_in power_on)) = 1
   \<and> lastLow (loop_body ttl_high_in (loop_body ttl_low_in power_on)) = 0"
proof -
  have a: "isFloating (sample ttl_high_in (loop_body ttl_low_in power_on)) = 0"
    by (simp add: all_defs start_defs ttl_low_in_def ttl_high_in_def)
  have b: "isLow (sample ttl_low_in power_on) \<noteq> 0"
    by (simp add: all_defs start_defs ttl_low_in_def)
  have c: "isHigh (sample ttl_high_in (loop_body ttl_low_in power_on)) = 1"
    by (simp add: all_defs start_defs ttl_low_in_def ttl_high_in_def)
  have d: "isLow (sample ttl_high_in (loop_body ttl_low_in power_on)) = 0"
    by (simp add: all_defs start_defs ttl_low_in_def ttl_high_in_def)
  show ?thesis
    using a b c d level_change_sets_counter [of ttl_high_in ttl_low_in power_on] by simp
qed

subsection \<open>The OS LED\<close>

text \<open>
  Claim C7, as stated, fails: with \<open>isHigh\<close> set, the flag clear and the counter
  running, the pattern \<open>0b101\<close> that the HI statement has just written does not survive
  the OS branch. The LED pins end at \<open>0b001\<close>, the same port value as without \<open>isHigh\<close>.
\<close>

theorem os_branch_drops_high_pattern:
  "isFloating high_oscillating_example = 0
   \<and> isOscillating high_oscillating_example \<noteq> 0
   \<and> isHigh high_oscillating_example \<noteq> 0
   \<and> leds (set_level (high_oscillating_example
        \<lparr>PORTB := PORTB high_oscillating_example AND 0b11111000\<rparr>)) = 0b00000101
   \<and> leds (set_leds high_oscillating_example) = 0b00000001
   \<and> \<not> HI_pattern (set_leds high_oscillating_example)
   \<and> PORTB (set_leds high_oscillating_example)
       = PORTB (set_leds (high_oscillating_example\<lparr>isHigh := 0\<rparr>))"
  by (simp add: high_oscillating_example_def set_leds_def set_level_def set_os_def
      Let_def leds_def HI_pattern_def)

text \<open>
  Claim C7, amended. In a pass that writes the LEDs with the flag clear and the counter
  running, the OS branch is a read-modify-write of the port that clears bit 2 and sets
  bit 0 and leaves every other bit as it was. So the LO bit written in this pass stays,
  of the HI pattern only bit 0 stays, the LED pins read \<open>0b001\<close>, or \<open>0b011\<close> with
  \<open>isLow\<close>, and the bits above the LED pins are not touched. The counter then goes down
  by exactly one, without wrapping.
\<close>

theorem os_branch_clears_bit2_sets_bit0:
  assumes "isFloating m = 0" and "isOscillating m \<noteq> 0"
  shows "set_os (set_level (m\<lparr>PORTB := PORTB m AND 0b11111000\<rparr>)) = set_leds m
       \<and> PORTB (set_os q) AND 0b11111010 = PORTB q AND 0b11111010
       \<and> PORTB (set_os q) AND 0b00000101 = 0b00000001
       \<and> leds (set_leds m) = (if isLow m \<noteq> 0 then 0b00000011 else 0b00000001)
       \<and> OS_pattern (set_leds m)
       \<and> LO_pattern (set_leds m) = (isLow m \<noteq> 0)
       \<and> \<not> HI_pattern (set_leds m)
       \<and> PORTB (set_leds m) AND 0b11111000 = PORTB m AND 0b11111000
       \<and> isOscillating (set_leds m) = isOscillating m - 1
       \<and> unat (isOscillating (set_leds m)) = unat (isOscillating m) - 1
       \<and> 0 < unat (isOscillating m)"
proof -
  have e: "set_leds m = set_os (set_level (m\<lparr>PORTB := PORTB m AND 0b11111000\<rparr>))"
    using assms by (rule set_leds_oscillating)
  have f1: "PORTB (set_os q) AND 0b11111010 = PORTB q AND 0b11111010"
    by (simp add: PORTB_set_os bit.conj_disj_distrib2 and.assoc)
  have f2: "PORTB (set_os q) AND 0b00000101 = 0b00000001"
    by (simp add: PORTB_set_os bit.conj_disj_distrib2 and.assoc)
  have l: "leds (set_leds m) = (if isLow m \<noteq> 0 then 0b00000011 else 0b00000001)"
    using assms by (rule leds_set_leds_oscillating)
  have os: "OS_pattern (set_leds m)"
    using assms by (rule OS_pattern_set_leds_oscillating)
  have lo: "LO_pattern (set_leds m) = (isLow m \<noteq> 0)"
    by (simp add: e PORTB_set_os PORTB_set_level LO_pattern_def
        bit.conj_disj_distrib2 and.assoc)
  have hi: "\<not> HI_pattern (set_leds m)"
    using os by (auto simp add: OS_pattern_def HI_pattern_def)
  have c: "isOscillating (set_leds m) = isOscillating m - 1"
    by (simp add: e isOscillating_set_os)
  have u: "unat (isOscillating (set_leds m)) = unat (isOscillating m) - 1"
    using assms(2) by (simp add: c word_pred_unat)
  have p: "0 < unat (isOscillating m)"
    using assms(2) by (simp add: unat_gt_0)
  from e [symmetric] f1 f2 l os lo hi PORTB_set_leds_high_bits c u p
  show ?thesis by blast
qed

theorem os_branch_clears_bit2_sets_bit0_witness:
  "isFloating low_oscillating_example = 0
   \<and> isOscillating low_oscillating_example \<noteq> 0
   \<and> leds (set_leds low_oscillating_example) = 0b00000011
   \<and> OS_pattern (set_leds low_oscillating_example)
   \<and> LO_pattern (set_leds low_oscillating_example)
   \<and> isOscillating (set_leds low_oscillating_example) = 49"
proof -
  have a: "isFloating low_oscillating_example = 0"
    by (simp add: low_oscillating_example_def)
  have b: "isOscillating low_oscillating_example \<noteq> 0"
    by (simp add: low_oscillating_example_def)
  have c: "isLow low_oscillating_example = 1" "isOscillating low_oscillating_example = 50"
    by (simp_all add: low_oscillating_example_def)
  show ?thesis
    using a b c os_branch_clears_bit2_sets_bit0 [OF a b] by simp
qed

subsection \<open>The counter\<close>

text \<open>
  Claim C9. From start-up, whatever the locals held and whatever the passes read, the
  counter is at most \<open>OSC_DUR\<close> = 50 at the end of every pass, after the interrupt
  window and when the LEDs are written. In any pass, from any state, the counter is
  either kept or set to \<open>OSC_DUR\<close> before the LEDs are written, and the LED block then
  takes one off unless it is zero already (the subtraction is the one of natural
  numbers), so it never wraps.
\<close>

theorem counter_within_OSC_DUR:
  "isOscillating (run (startup u) js) \<le> OSC_DUR
   \<and> isOscillating (sample i (run (startup u) js)) \<le> OSC_DUR
   \<and> isOscillating (before_leds i (run (startup u) js)) \<le> OSC_DUR
   \<and> unat (isOscillating (run (startup u) js)) \<le> 50
   \<and> (isOscillating (before_leds i m) = isOscillating m
        \<or> isOscillating (before_leds i m) = OSC_DUR)
   \<and> unat (isOscillating (loop_body i m)) = unat (isOscillating (before_leds i m)) - 1"
proof -
  have r: "isOscillating (run (startup u) js) \<le> OSC_DUR"
    using startup_bounded by (rule run_bounded)
  then have n: "unat (isOscillating (run (startup u) js)) \<le> 50"
    by (simp add: word_le_nat_alt OSC_DUR_def)
  have w: "isOscillating (before_leds i m) = isOscillating m
        \<or> isOscillating (before_leds i m) = OSC_DUR"
    by (simp add: isOscillating_before_leds)
  have d: "unat (isOscillating (loop_body i m)) = unat (isOscillating (before_leds i m)) - 1"
    by (simp add: isOscillating_loop_body word_pred_unat)
  from r n w d sample_bounded [OF r] before_leds_bounded [OF r] show ?thesis by blast
qed

text \<open>
  Claim C5, as stated, fails by one. After a pass with an edge in the window the counter
  is 49 at the end of the pass, not 50, and after 50 further passes without a new
  trigger the OS pattern is no longer on the LED pins.
\<close>

theorem edge_counter_not_fifty_at_end:
  "edge edge_in
   \<and> quiet (loop_body edge_in power_on) (replicate 50 ttl_high_in)
   \<and> isOscillating (loop_body edge_in power_on) = 49
   \<and> isOscillating (loop_body edge_in power_on) \<noteq> OSC_DUR
   \<and> \<not> OS_pattern (run (loop_body edge_in power_on) (replicate 50 ttl_high_in))"
proof -
  have e: "edge edge_in" by (simp add: edge_in_def)
  have q: "quiet (loop_body edge_in power_on) (replicate 50 ttl_high_in)"
    using lastLow_after_edge_in by (rule quiet_steady)
  have c: "isOscillating (loop_body edge_in power_on) = 49"
    by (simp add: all_defs start_defs edge_in_def)
  have "replicate 50 ttl_high_in = ttl_high_in # replicate 49 ttl_high_in"
    by (simp add: numeral_eq_Suc)
  with q have "OS_pattern (run (loop_body edge_in power_on) (replicate 50 ttl_high_in))
     = (length (ttl_high_in # replicate 49 ttl_high_in)
          \<le> unat (isOscillating (loop_body edge_in power_on)))"
    using quiet_OS_pattern
      [of "loop_body edge_in power_on" ttl_high_in "replicate 49 ttl_high_in"]
    by simp
  then have n: "\<not> OS_pattern (run (loop_body edge_in power_on) (replicate 50 ttl_high_in))"
    by (simp add: c)
  from e q c n show ?thesis by (simp add: OSC_DUR_def)
qed

text \<open>
  Claim C5, amended. If an edge arrives in the window of a pass, the counter is
  \<open>OSC_DUR\<close> = 50 from the interrupt until the LEDs are written, whatever it was
  before. That pass already asserts OS and takes one off, so the counter is 49 at its
  end. After \<open>n\<close> further passes without a new trigger the counter is 49 minus \<open>n\<close>
  (zero from the 49th on), and OS is asserted at the end of the pass exactly while
  \<open>n\<close> is at most 49: in the pass of the edge and in the 49 passes after it.
\<close>

theorem edge_sets_counter_and_decays:
  assumes "edge i" and "quiet (loop_body i m) js"
  shows "isOscillating (sample i m) = OSC_DUR
       \<and> isOscillating (before_leds i m) = OSC_DUR
       \<and> unat (isOscillating (run (loop_body i m) js)) = 49 - length js
       \<and> OS_pattern (run (loop_body i m) js) = (length js \<le> 49)"
proof -
  have s: "isOscillating (sample i m) = OSC_DUR"
    using assms(1) by (simp add: isOscillating_sample)
  have n: "unat (isOscillating (run (loop_body i m) js)) = 49 - length js"
    using quiet_decay [OF assms(2)] trigger_pass(2) [OF assms(1), of m] by simp
  have o: "OS_pattern (run (loop_body i m) js) = (length js \<le> 49)"
  proof (cases js)
    case Nil
    then show ?thesis using trigger_pass(3) [OF assms(1), of m] by simp
  next
    case (Cons j ks)
    with assms(2) have "quiet (loop_body i m) (j # ks)" by simp
    then have "OS_pattern (run (loop_body i m) (j # ks))
        = (length (j # ks) \<le> unat (isOscillating (loop_body i m)))"
      by (rule quiet_OS_pattern)
    with Cons show ?thesis
      using trigger_pass(2) [OF assms(1), of m] by simp
  qed
  from s trigger_pass(1) [OF assms(1), of m] n o show ?thesis by blast
qed

theorem edge_sets_counter_and_decays_witness:
  "edge edge_in
   \<and> quiet (loop_body edge_in power_on) [ttl_high_in, ttl_high_in]
   \<and> isOscillating (sample edge_in power_on) = OSC_DUR
   \<and> isOscillating (before_leds edge_in power_on) = OSC_DUR
   \<and> unat (isOscillating (run (loop_body edge_in power_on) [ttl_high_in, ttl_high_in])) = 47
   \<and> OS_pattern (run (loop_body edge_in power_on) [ttl_high_in, ttl_high_in])"
proof -
  have e: "edge edge_in" by (simp add: edge_in_def)
  have q: "quiet (loop_body edge_in power_on) [ttl_high_in, ttl_high_in]"
    using quiet_steady [OF lastLow_after_edge_in, of 2] by (simp add: numeral_2_eq_2)
  show ?thesis
    using e q edge_sets_counter_and_decays [OF e q] by simp
qed

subsection \<open>The first pass\<close>

text \<open>
  Claim C10. \<open>lastHigh\<close> and \<open>lastLow\<close> are read in the first pass with whatever the
  locals held at start-up. Two starts that differ in \<open>lastLow\<close> only, given the same
  input (a line held high, no edge), end the first pass with different counters and
  different LED pins: one shows the HI pattern and a counter of zero, the other the OS
  pattern and a running counter.
\<close>

theorem first_pass_depends_on_uninitialised:
  "\<exists>u u' i. u' = u\<lparr>lastLow := 1\<rparr>
     \<and> isOscillating (loop_body i (startup u)) \<noteq> isOscillating (loop_body i (startup u'))
     \<and> leds (loop_body i (startup u)) \<noteq> leds (loop_body i (startup u'))
     \<and> HI_pattern (loop_body i (startup u)) \<and> \<not> OS_pattern (loop_body i (startup u))
     \<and> OS_pattern (loop_body i (startup u')) \<and> \<not> HI_pattern (loop_body i (startup u'))"
proof -
  have a: "isOscillating (loop_body ttl_high_in (startup uninitialised)) = 0"
    by (simp add: all_defs start_defs ttl_high_in_def)
  have b: "PORTB (loop_body ttl_high_in (startup uninitialised)) = 0b00000101"
    by (simp add: all_defs start_defs ttl_high_in_def)
  have c: "isOscillating (loop_body ttl_high_in (startup (uninitialised\<lparr>lastLow := 1\<rparr>))) = 49"
    by (simp add: all_defs start_defs ttl_high_in_def)
  have d: "PORTB (loop_body ttl_high_in (startup (uninitialised\<lparr>lastLow := 1\<rparr>))) = 0b00000001"
    by (simp add: all_defs start_defs ttl_high_in_def)
  have "isOscillating (loop_body ttl_high_in (startup uninitialised))
        \<noteq> isOscillating (loop_body ttl_high_in (startup (uninitialised\<lparr>lastLow := 1\<rparr>)))
     \<and> leds (loop_body ttl_high_in (startup uninitialised))
        \<noteq> leds (loop_body ttl_high_in (startup (uninitialised\<lparr>lastLow := 1\<rparr>)))
     \<and> HI_pattern (loop_body ttl_high_in (startup uninitialised))
     \<and> \<not> OS_pattern (loop_body ttl_high_in (startup uninitialised))
     \<and> OS_pattern (loop_body ttl_high_in (startup (uninitialised\<lparr>lastLow := 1\<rparr>)))
     \<and> \<not> HI_pattern (loop_body ttl_high_in (startup (uninitialised\<lparr>lastLow := 1\<rparr>)))"
    by (simp add: a b c d leds_def HI_pattern_def OS_pattern_def)
  then show ?thesis by blast
qed

end
